theory Spec2Isabelle
  imports Main "HOL-Library.Word" "HOL-Library.Sublist"
begin

unbundle bit_operations_syntax

section \<open>Data model of \<^verbatim>\<open>filewatch.hpp\<close>\<close>

text \<open>
  The header is compiled for one of two backends, chosen by the preprocessor
  (\<^verbatim>\<open>#ifdef _WIN32\<close> / \<^verbatim>\<open>#if __unix__\<close>). The choice is a value of
  type \<open>platform\<close> here, so that both variants of every function are modelled.
\<close>

datatype platform = Win32 | Unix

text \<open>\<^verbatim>\<open>enum class Event\<close> (lines 41-47).\<close>

datatype Event = CREATED | DELETED | CHANGED | RENAMED_OLD | RENAMED_NEW

text \<open>\<^verbatim>\<open>struct PathParts\<close> (lines 85-90).\<close>

record PathParts =
  directory :: string
  filename :: string

text \<open>
  The exceptions of the header: \<^verbatim>\<open>std::system_error\<close> (thrown at lines 152, 248,
  273, 316, 367, 376, 396) and \<^verbatim>\<open>std::out_of_range\<close> (thrown by \<^verbatim>\<open>std::map::at\<close>
  at line 331).
\<close>

datatype error = system_error | out_of_range

text \<open>
  What one call of the user callback does, as far as line 457-463 can tell: it returns,
  it throws something derived from \<^verbatim>\<open>std::exception\<close> (caught at line 461), or it throws
  a value of any other type (not matched by the handler of line 461).
\<close>

datatype callback_result = Returns | ThrowsStdException | ThrowsOther

text \<open>
  The callback is a \<^verbatim>\<open>std::function\<close>, which may be empty (line 455), hence the option.
  A callback may keep state of its own; the first argument is the number of calls made
  before this one, so that the result may depend on it.
\<close>

type_synonym callback_fn = "nat \<Rightarrow> string \<Rightarrow> Event \<Rightarrow> callback_result"

subsection \<open>Operating-system records\<close>

text \<open>
  \<^verbatim>\<open>struct inotify_event\<close> of \<^verbatim>\<open>sys/inotify.h\<close>. The field \<open>name\<close> is the C
  string at \<^verbatim>\<open>event->name\<close> (line 418); \<open>mask_field\<close> is \<^verbatim>\<open>event->mask\<close>. The
  buffer that \<^verbatim>\<open>read\<close> fills is a sequence of such records, walked by the byte
  offsets of line 429; it is a list here.
\<close>

record inotify_event =
  wd :: int
  mask_field :: "32 word"
  cookie :: "32 word"
  len :: "32 word"
  name :: string

text \<open>Event bits of \<^verbatim>\<open>sys/inotify.h\<close>, with the values Linux gives them.\<close>

definition IN_MODIFY :: "32 word" where "IN_MODIFY = 0x00000002"
definition IN_MOVED_FROM :: "32 word" where "IN_MOVED_FROM = 0x00000040"
definition IN_MOVED_TO :: "32 word" where "IN_MOVED_TO = 0x00000080"
definition IN_CREATE :: "32 word" where "IN_CREATE = 0x00000100"
definition IN_DELETE :: "32 word" where "IN_DELETE = 0x00000200"
definition IN_IGNORED :: "32 word" where "IN_IGNORED = 0x00008000"

text \<open>
  \<^verbatim>\<open>FILE_NOTIFY_INFORMATION\<close> of \<^verbatim>\<open>winnt.h\<close>: \<open>FileName\<close> is the string
  \<^verbatim>\<open>changed_file\<close> that lines 325-328 build from the wide characters; the chain of
  \<^verbatim>\<open>NextEntryOffset\<close> (lines 333-335) is a list here.
\<close>

record FILE_NOTIFY_INFORMATION =
  Action :: "32 word"
  FileName :: string

definition FILE_ACTION_ADDED :: "32 word" where "FILE_ACTION_ADDED = 1"
definition FILE_ACTION_REMOVED :: "32 word" where "FILE_ACTION_REMOVED = 2"
definition FILE_ACTION_MODIFIED :: "32 word" where "FILE_ACTION_MODIFIED = 3"
definition FILE_ACTION_RENAMED_OLD_NAME :: "32 word" where "FILE_ACTION_RENAMED_OLD_NAME = 4"
definition FILE_ACTION_RENAMED_NEW_NAME :: "32 word" where "FILE_ACTION_RENAMED_NEW_NAME = 5"

text \<open>
  What \<^verbatim>\<open>WaitForMultipleObjects\<close> returns at line 311. For \<^verbatim>\<open>WAIT_OBJECT_0\<close> the
  arguments are whether \<^verbatim>\<open>GetOverlappedResult\<close> succeeds (line 315) and the records in
  the buffer (none when \<^verbatim>\<open>bytes_returned == 0\<close>, line 320). \<open>WAIT_CLOSE\<close> is
  \<^verbatim>\<open>WAIT_OBJECT_0 + 1\<close>, the close event.
\<close>

datatype wait_result =
  WAIT_OBJECT_0 bool "FILE_NOTIFY_INFORMATION list"
| WAIT_CLOSE
| WAIT_FAILED

text \<open>
  One return of the blocking call of the monitoring loop: \<^verbatim>\<open>read\<close> on the inotify
  descriptor (line 408; the empty list stands for \<^verbatim>\<open>length <= 0\<close>) or the wait of
  line 311.
\<close>

datatype os_report =
  InotifyRead "inotify_event list"
| DirectoryChanges wait_result

section \<open>Target resolution\<close>

text \<open>The lambda \<^verbatim>\<open>predict\<close> of lines 208-214.\<close>

definition predict :: "platform \<Rightarrow> char \<Rightarrow> bool" where
  "predict p character =
     (case p of
        Win32 \<Rightarrow> character = CHR 0x5C \<or> character = CHR ''/''
      | Unix \<Rightarrow> character = CHR ''/'')"

definition this_directory :: string where
  "this_directory = ''./''"

text \<open>
  \<^verbatim>\<open>std::find_if\<close>: the position of the first element that satisfies the predicate, the
  length of the range when there is none (the end iterator).
\<close>

fun find_if :: "('a \<Rightarrow> bool) \<Rightarrow> 'a list \<Rightarrow> nat" where
  "find_if P [] = 0"
| "find_if P (x # xs) = (if P x then 0 else Suc (find_if P xs))"

text \<open>
  \<^verbatim>\<open>split_directory_and_file\<close> (lines 206-229). The search runs over the reverse range;
  \<^verbatim>\<open>base()\<close> turns the reverse position \<open>r\<close> into the forward position
  \<open>length path - r\<close>, which is \<open>0\<close> for \<^verbatim>\<open>rend()\<close>.
\<close>

definition split_directory_and_file :: "platform \<Rightarrow> string \<Rightarrow> PathParts" where
  "split_directory_and_file p path =
     (let pivot = length path - find_if (predict p) (rev path);
          extracted_directory = take pivot path;
          directory = (if length extracted_directory > 0 then extracted_directory
                       else this_directory);
          filename = drop pivot path
      in \<lparr>directory = directory, filename = filename\<rparr>)"

section \<open>The session object\<close>

text \<open>
  The two worker threads of a session (\<^verbatim>\<open>_watch_thread\<close>, \<^verbatim>\<open>_callback_thread\<close>).
\<close>

datatype thread = WatchThread | CallbackThread

text \<open>
  Where \<^verbatim>\<open>monitor_directory\<close> stands. \<open>MonStart\<close>: before \<^verbatim>\<open>_running.set_value()\<close>
  (lines 303, 405). \<open>MonWhile\<close>: at the loop test \<^verbatim>\<open>_destroy == false\<close> (lines 350, 406).
  \<open>MonRead\<close>: in the blocking call (lines 307-311, 408). \<open>MonLock parsed\<close>: about to take
  \<^verbatim>\<open>_callback_mutex\<close> (lines 347, 433) with the local vector \<^verbatim>\<open>parsed_information\<close>.
  \<open>MonInsert parsed\<close>: holding the mutex, before the insert (lines 348-349, 434-435).
  \<open>MonExit\<close>: the thread function has returned, by the loop test or by an exception caught
  in the lambda of lines 169-181.
\<close>

datatype watch_pc =
  MonStart
| MonWhile
| MonRead
| MonLock "(string \<times> Event) list"
| MonInsert "(string \<times> Event) list"
| MonExit

text \<open>
  Where \<^verbatim>\<open>callback_thread\<close> stands. \<open>CbWhile\<close>: at the loop test of line 443.
  \<open>CbLock\<close>: about to take the mutex (line 445). \<open>CbCheck\<close>: holding it, at the test of
  line 446. \<open>CbWait\<close>: inside \<^verbatim>\<open>_cv.wait\<close> (line 447), the mutex released.
  \<open>CbSwap\<close>: holding the mutex, before lines 449-451. \<open>CbFor evs\<close>: in the loop of
  line 453 with \<open>evs\<close> of the local vector \<^verbatim>\<open>callback_information\<close> still to visit.
  \<open>CbExit\<close>: the thread function has returned, by the loop test or by an exception caught
  in the lambda of lines 154-167.
\<close>

datatype callback_pc =
  CbWhile
| CbLock
| CbCheck
| CbWait
| CbSwap
| CbFor "(string \<times> Event) list"
| CbExit

text \<open>
  The members of \<^verbatim>\<open>class FileWatch\<close> (lines 91-140); \<open>m_x\<close> is the member \<^verbatim>\<open>_x\<close>.
  \<open>m_directory\<close> is the path the operating-system handle of \<^verbatim>\<open>_directory\<close> was opened
  on, and \<open>m_running\<close> is whether the promise \<^verbatim>\<open>_running\<close> has been given its value.
  \<open>m_callback_mutex\<close> is the thread that holds \<^verbatim>\<open>_callback_mutex\<close>, if any.
  The remaining fields are not members: \<open>platform\<close> is the backend compiled in,
  \<open>watch_pc\<close> and \<open>callback_pc\<close> are the positions of the two threads, \<open>os_reports\<close>
  is what the blocking call of the monitoring loop will return from now on, in order, and
  \<open>callback_log\<close> lists the calls of the user callback made at line 459, in order.
\<close>

record FileWatch =
  platform :: platform
  m_path :: string
  m_watching_single_file :: bool
  m_filename :: string
  m_destroy :: bool
  m_callback :: "callback_fn option"
  m_callback_mutex :: "thread option"
  m_callback_information :: "(string \<times> Event) list"
  m_running :: bool
  m_directory :: string
  watch_pc :: watch_pc
  callback_pc :: callback_pc
  os_reports :: "os_report list"
  callback_log :: "(string \<times> Event) list"

text \<open>
  \<^verbatim>\<open>_listen_filters\<close> of the Linux backend (line 142), the mask also passed to
  \<^verbatim>\<open>inotify_add_watch\<close> at line 394.
\<close>

definition listen_filters :: "32 word" where
  "listen_filters = IN_MODIFY OR IN_CREATE OR IN_DELETE"

text \<open>\<^verbatim>\<open>_event_type_mapping\<close> of the Windows backend (lines 125-131).\<close>

definition event_type_mapping :: "32 word \<Rightarrow> Event option" where
  "event_type_mapping = map_of
     [(FILE_ACTION_ADDED, CREATED),
      (FILE_ACTION_REMOVED, DELETED),
      (FILE_ACTION_MODIFIED, CHANGED),
      (FILE_ACTION_RENAMED_OLD_NAME, RENAMED_OLD),
      (FILE_ACTION_RENAMED_NEW_NAME, RENAMED_NEW)]"

text \<open>\<^verbatim>\<open>pass_filter\<close> (lines 231-241).\<close>

definition pass_filter :: "FileWatch \<Rightarrow> string \<Rightarrow> bool" where
  "pass_filter s file_path =
     (if m_watching_single_file s then
        (let extracted_filename = filename (split_directory_and_file (platform s) file_path)
         in extracted_filename = m_filename s)
      else True)"

section \<open>Decoding a notification batch\<close>

text \<open>
  The body of the inner loop of the Linux \<^verbatim>\<open>monitor_directory\<close> for one record
  (lines 415-429): what it appends to \<^verbatim>\<open>parsed_information\<close>.
\<close>

definition parse_inotify_event :: "FileWatch \<Rightarrow> inotify_event \<Rightarrow> (string \<times> Event) list" where
  "parse_inotify_event s event =
     (if len event \<noteq> 0 then
        (let changed_file = name event in
         if pass_filter s changed_file then
           (if mask_field event AND IN_CREATE \<noteq> 0 then [(changed_file, CREATED)]
            else if mask_field event AND IN_DELETE \<noteq> 0 then [(changed_file, DELETED)]
            else if mask_field event AND IN_MODIFY \<noteq> 0 then [(changed_file, CHANGED)]
            else [])
         else [])
      else [])"

text \<open>
  The inner loop itself (lines 413-430), over the records of the buffer, with
  \<^verbatim>\<open>parsed_information\<close> as accumulator.
\<close>

fun parse_inotify_buffer ::
  "FileWatch \<Rightarrow> inotify_event list \<Rightarrow> (string \<times> Event) list \<Rightarrow> (string \<times> Event) list" where
  "parse_inotify_buffer s [] parsed_information = parsed_information"
| "parse_inotify_buffer s (event # rest) parsed_information =
     parse_inotify_buffer s rest (parsed_information @ parse_inotify_event s event)"

text \<open>
  The inner loop of the Windows \<^verbatim>\<open>monitor_directory\<close> (lines 322-336). The lookup
  \<^verbatim>\<open>_event_type_mapping.at\<close> throws \<^verbatim>\<open>std::out_of_range\<close> for a key that is not in the
  map; the exception leaves the function, so the records collected so far are lost.
\<close>

fun parse_notify_information ::
  "FileWatch \<Rightarrow> FILE_NOTIFY_INFORMATION list \<Rightarrow> (string \<times> Event) list
     \<Rightarrow> error + (string \<times> Event) list" where
  "parse_notify_information s [] parsed_information = Inr parsed_information"
| "parse_notify_information s (file_information # rest) parsed_information =
     (let changed_file = FileName file_information in
      if pass_filter s changed_file then
        (case event_type_mapping (Action file_information) of
           None \<Rightarrow> Inl out_of_range
         | Some event \<Rightarrow>
             parse_notify_information s rest (parsed_information @ [(changed_file, event)]))
      else parse_notify_information s rest parsed_information)"

section \<open>Construction\<close>

text \<open>
  The part of the operating system that construction consults. \<open>file_status\<close> is what
  \<^verbatim>\<open>stat\<close> (line 366) or \<^verbatim>\<open>GetFileAttributes\<close> (line 246) finds at a path, \<open>None\<close>
  when the call fails. \<open>inotify_init_ok\<close>: \<^verbatim>\<open>inotify_init\<close> succeeds (line 374).
  \<open>watch_ok\<close>: \<^verbatim>\<open>inotify_add_watch\<close> (line 394) or \<^verbatim>\<open>CreateFile\<close> (line 263) succeeds
  on the path. \<open>create_event_ok\<close>: \<^verbatim>\<open>CreateEvent\<close> succeeds (line 150).
  \<open>notifications\<close>: what the blocking call of the monitoring loop will return, in order.
\<close>

datatype file_kind = RegularFile | DirectoryFile | OtherFile

record os_env =
  file_status :: "string \<Rightarrow> file_kind option"
  inotify_init_ok :: bool
  watch_ok :: "string \<Rightarrow> bool"
  create_event_ok :: bool
  notifications :: "os_report list"

text \<open>\<^verbatim>\<open>is_file\<close> (lines 363-370).\<close>

definition is_file :: "os_env \<Rightarrow> string \<Rightarrow> error + bool" where
  "is_file env path =
     (case file_status env path of
        None \<Rightarrow> Inl system_error
      | Some kind \<Rightarrow> Inr (kind = RegularFile))"

text \<open>
  The common tail of both variants of \<^verbatim>\<open>get_directory\<close> (lines 250-275, 380-398), once
  \<^verbatim>\<open>_watching_single_file\<close> is known. The result carries the members the function
  sets; \<open>m_directory\<close> stands for the handle it returns, and from here on the
  monitoring loop reads what the operating system reports on this new handle.
\<close>

definition open_watch :: "os_env \<Rightarrow> string \<Rightarrow> bool \<Rightarrow> FileWatch \<Rightarrow> error + FileWatch" where
  "open_watch env path single s =
     (let s1 = s\<lparr>m_watching_single_file := single\<rparr>;
          parsed_path = split_directory_and_file (platform s) path;
          s2 = (if single then s1\<lparr>m_filename := filename parsed_path\<rparr> else s1);
          watch_path = (if single then directory parsed_path else path)
      in if watch_ok env watch_path
         then Inr (s2\<lparr>m_directory := watch_path, os_reports := notifications env\<rparr>)
         else Inl system_error)"

text \<open>\<^verbatim>\<open>get_directory\<close> (lines 244-276 for Windows, 372-399 for Linux).\<close>

definition get_directory :: "os_env \<Rightarrow> string \<Rightarrow> FileWatch \<Rightarrow> error + FileWatch" where
  "get_directory env path s =
     (case platform s of
        Win32 \<Rightarrow>
          (case file_status env path of
             None \<Rightarrow> Inl system_error
           | Some kind \<Rightarrow> open_watch env path (kind \<noteq> DirectoryFile) s)
      | Unix \<Rightarrow>
          (if inotify_init_ok env then
             (case is_file env path of
                Inl e \<Rightarrow> Inl e
              | Inr single \<Rightarrow> open_watch env path single s)
           else Inl system_error))"

text \<open>
  \<^verbatim>\<open>init\<close> (lines 147-185): both threads are started. The wait of line 184 on the
  readiness signal, which \<^verbatim>\<open>monitor_directory\<close> gives in its first step, is not modelled.
\<close>

definition init :: "os_env \<Rightarrow> FileWatch \<Rightarrow> error + FileWatch" where
  "init env s =
     (if platform s = Win32 \<and> \<not> create_event_ok env then Inl system_error
      else Inr (s\<lparr>callback_pc := CbWhile, watch_pc := MonStart\<rparr>))"

text \<open>
  The constructor (lines 53-59) with the default member initialisers of lines 96-99.
\<close>

definition new_FileWatch ::
  "os_env \<Rightarrow> platform \<Rightarrow> string \<Rightarrow> callback_fn option \<Rightarrow> error + FileWatch" where
  "new_FileWatch env p path callback =
     (case get_directory env path
             \<lparr>platform = p, m_path = path, m_watching_single_file = False, m_filename = [],
              m_destroy = False, m_callback = callback, m_callback_mutex = None,
              m_callback_information = [], m_running = False, m_directory = [],
              watch_pc = MonExit, callback_pc = CbExit,
              os_reports = [], callback_log = []\<rparr> of
        Inl e \<Rightarrow> Inl e
      | Inr s \<Rightarrow> init env s)"

section \<open>The two threads\<close>

text \<open>
  What the monitoring loop does with one return of its blocking call, up to the point
  where it takes the mutex: the new position of the thread. Linux (lines 408-431): a
  read of no data goes back to the loop test, anything else is decoded. Windows
  (lines 311-345): a failed \<^verbatim>\<open>GetOverlappedResult\<close> and an unknown action code throw,
  which ends the thread; every other case reaches line 347, with an empty
  \<^verbatim>\<open>parsed_information\<close> for the close event and for a failed wait. A report of the
  other backend cannot arrive; the thread stays in its call then.
\<close>

definition decode_report :: "FileWatch \<Rightarrow> os_report \<Rightarrow> watch_pc" where
  "decode_report s r =
     (case (platform s, r) of
        (Unix, InotifyRead events) \<Rightarrow>
          (if events = [] then MonWhile else MonLock (parse_inotify_buffer s events []))
      | (Win32, DirectoryChanges (WAIT_OBJECT_0 ok infos)) \<Rightarrow>
          (if \<not> ok then MonExit
           else case parse_notify_information s infos [] of
                  Inl e \<Rightarrow> MonExit
                | Inr parsed_information \<Rightarrow> MonLock parsed_information)
      | (Win32, DirectoryChanges WAIT_CLOSE) \<Rightarrow> MonLock []
      | (Win32, DirectoryChanges WAIT_FAILED) \<Rightarrow> MonLock []
      | _ \<Rightarrow> MonRead)"

text \<open>
  One step of the thread that runs \<^verbatim>\<open>monitor_directory\<close> (lines 290-358 and 401-438).
  A thread that cannot proceed (no report to read, mutex taken) leaves the state as it is.
  The Windows loop is a do-while: it enters its body before the first test.
\<close>

definition monitor_directory :: "FileWatch \<Rightarrow> FileWatch" where
  "monitor_directory s =
     (case watch_pc s of
        MonStart \<Rightarrow>
          s\<lparr>m_running := True,
            watch_pc := (case platform s of Win32 \<Rightarrow> MonRead | Unix \<Rightarrow> MonWhile)\<rparr>
      | MonWhile \<Rightarrow> s\<lparr>watch_pc := (if m_destroy s then MonExit else MonRead)\<rparr>
      | MonRead \<Rightarrow>
          (case os_reports s of
             [] \<Rightarrow> s
           | r # rest \<Rightarrow>
               (if decode_report s r = MonRead then s
                else s\<lparr>os_reports := rest, watch_pc := decode_report s r\<rparr>))
      | MonLock parsed_information \<Rightarrow>
          (if m_callback_mutex s = None
           then s\<lparr>m_callback_mutex := Some WatchThread, watch_pc := MonInsert parsed_information\<rparr>
           else s)
      | MonInsert parsed_information \<Rightarrow>
          s\<lparr>m_callback_information := m_callback_information s @ parsed_information,
            m_callback_mutex := None,
            watch_pc := MonWhile\<rparr>
      | MonExit \<Rightarrow> s)"

text \<open>
  The body of the loop of line 453 for one element: an empty callback skips it
  (line 455); otherwise the callback is called (line 459) and the call is logged. An
  exception matched by line 461 is dropped and the loop goes on; any other exception
  leaves \<^verbatim>\<open>callback_thread\<close> and ends the thread in the handler of line 159.
\<close>

definition invoke_callback :: "FileWatch \<Rightarrow> string \<times> Event \<Rightarrow> (string \<times> Event) list \<Rightarrow> FileWatch" where
  "invoke_callback s file rest =
     (case m_callback s of
        None \<Rightarrow> s\<lparr>callback_pc := CbFor rest\<rparr>
      | Some f \<Rightarrow>
          (case f (length (callback_log s)) (fst file) (snd file) of
             Returns \<Rightarrow> s\<lparr>callback_log := callback_log s @ [file], callback_pc := CbFor rest\<rparr>
           | ThrowsStdException \<Rightarrow>
               s\<lparr>callback_log := callback_log s @ [file], callback_pc := CbFor rest\<rparr>
           | ThrowsOther \<Rightarrow>
               s\<lparr>callback_log := callback_log s @ [file], callback_pc := CbExit\<rparr>))"

text \<open>
  One step of the thread that runs \<^verbatim>\<open>callback_thread\<close> (lines 441-466). The wait of
  line 447 can return, with the mutex taken again, whenever its predicate holds and the
  mutex is free; which notification of \<^verbatim>\<open>_cv\<close> wakes the thread is not modelled.
\<close>

definition callback_thread :: "FileWatch \<Rightarrow> FileWatch" where
  "callback_thread s =
     (case callback_pc s of
        CbWhile \<Rightarrow> s\<lparr>callback_pc := (if m_destroy s then CbExit else CbLock)\<rparr>
      | CbLock \<Rightarrow>
          (if m_callback_mutex s = None
           then s\<lparr>m_callback_mutex := Some CallbackThread, callback_pc := CbCheck\<rparr>
           else s)
      | CbCheck \<Rightarrow>
          (if m_callback_information s = [] \<and> \<not> m_destroy s
           then s\<lparr>m_callback_mutex := None, callback_pc := CbWait\<rparr>
           else s\<lparr>callback_pc := CbSwap\<rparr>)
      | CbWait \<Rightarrow>
          (if (m_callback_information s \<noteq> [] \<or> m_destroy s) \<and> m_callback_mutex s = None
           then s\<lparr>m_callback_mutex := Some CallbackThread, callback_pc := CbSwap\<rparr>
           else s)
      | CbSwap \<Rightarrow>
          s\<lparr>callback_pc := CbFor (m_callback_information s),
            m_callback_information := [],
            m_callback_mutex := None\<rparr>
      | CbFor [] \<Rightarrow> s\<lparr>callback_pc := CbWhile\<rparr>
      | CbFor (file # rest) \<Rightarrow> invoke_callback s file rest
      | CbExit \<Rightarrow> s)"

section \<open>Teardown and copy assignment\<close>

text \<open>
  What the operating system hands to the blocked monitoring call when \<^verbatim>\<open>destroy\<close>
  wakes it: removing the watch (line 194) makes inotify report \<^verbatim>\<open>IN_IGNORED\<close> for it,
  a record without a name; \<^verbatim>\<open>SetEvent\<close> (line 192) signals the close event.
\<close>

definition wake_report :: "platform \<Rightarrow> os_report" where
  "wake_report p =
     (case p of
        Unix \<Rightarrow> InotifyRead [\<lparr>wd = 1, mask_field = IN_IGNORED, cookie = 0, len = 0, name = []\<rparr>]
      | Win32 \<Rightarrow> DirectoryChanges WAIT_CLOSE)"

text \<open>
  \<^verbatim>\<open>destroy\<close> up to its first join (lines 189-196): the stop flag is set, the promise is
  replaced by a fresh one, the monitoring call is woken. \<^verbatim>\<open>notify_all\<close> has no effect
  of its own here: the wait of \<open>CbWait\<close> watches its predicate.
\<close>

definition destroy_begin :: "FileWatch \<Rightarrow> FileWatch" where
  "destroy_begin s =
     s\<lparr>m_destroy := True, m_running := False,
       os_reports := os_reports s @ [wake_report (platform s)]\<rparr>"

text \<open>
  What can happen next in a session: one of the two threads takes a step, or the owner
  calls \<^verbatim>\<open>destroy\<close>.
\<close>

datatype action = Run thread | Destroy

fun sched_step :: "action \<Rightarrow> FileWatch \<Rightarrow> FileWatch" where
  "sched_step (Run WatchThread) s = monitor_directory s"
| "sched_step (Run CallbackThread) s = callback_thread s"
| "sched_step Destroy s = destroy_begin s"

fun run :: "action list \<Rightarrow> FileWatch \<Rightarrow> FileWatch" where
  "run [] s = s"
| "run (a # as) s = run as (sched_step a s)"

text \<open>
  \<^verbatim>\<open>destroy\<close> (lines 187-204). While the caller waits in the joins of lines 197-198 the
  threads run as the schedule says; the joins return when both thread functions have
  returned, and \<open>None\<close> says that they have not after that schedule.
\<close>

definition destroy :: "action list \<Rightarrow> FileWatch \<Rightarrow> FileWatch option" where
  "destroy sched s =
     (let s1 = run sched (destroy_begin s)
      in if watch_pc s1 = MonExit \<and> callback_pc s1 = CbExit then Some s1 else None)"

text \<open>
  Copy assignment (lines 68-78). \<open>same_object\<close> is the test \<^verbatim>\<open>this == &other\<close>.
  \<open>None\<close>: \<^verbatim>\<open>destroy\<close> has not returned. \<open>Some (Inl e)\<close>: \<^verbatim>\<open>get_directory\<close> or
  \<^verbatim>\<open>init\<close> has thrown \<open>e\<close>.
\<close>

definition operator_assign ::
  "os_env \<Rightarrow> action list \<Rightarrow> bool \<Rightarrow> FileWatch \<Rightarrow> FileWatch \<Rightarrow> (error + FileWatch) option" where
  "operator_assign env sched same_object other s =
     (if same_object then Some (Inr s)
      else case destroy sched s of
             None \<Rightarrow> None
           | Some s1 \<Rightarrow>
               Some (case get_directory env (m_path other)
                            (s1\<lparr>m_path := m_path other, m_callback := m_callback other\<rparr>) of
                       Inl e \<Rightarrow> Inl e
                     | Inr s2 \<Rightarrow> init env s2))"

section \<open>Notions used to state the properties\<close>

text \<open>
  What the monitoring loop puts into the queue for one report: the vector it carries to
  line 347 or 433, nothing when it does not get there.
\<close>

definition enqueued_for :: "FileWatch \<Rightarrow> os_report \<Rightarrow> (string \<times> Event) list" where
  "enqueued_for s r = (case decode_report s r of MonLock parsed_information \<Rightarrow> parsed_information | _ \<Rightarrow> [])"

text \<open>
  The surviving records of a sequence of reports, in the order in which the operating
  system reports them.
\<close>

definition os_order :: "FileWatch \<Rightarrow> os_report list \<Rightarrow> (string \<times> Event) list" where
  "os_order s reports = concat (map (enqueued_for s) reports)"

text \<open>
  The local vector of the dispatch loop that is still to be visited, and the local
  vector of the monitoring loop that is not yet in the queue.
\<close>

definition dispatch_pending :: "FileWatch \<Rightarrow> (string \<times> Event) list" where
  "dispatch_pending s = (case callback_pc s of CbFor evs \<Rightarrow> evs | _ \<Rightarrow> [])"

definition watch_pending :: "FileWatch \<Rightarrow> (string \<times> Event) list" where
  "watch_pending s =
     (case watch_pc s of MonLock parsed \<Rightarrow> parsed | MonInsert parsed \<Rightarrow> parsed | _ \<Rightarrow> [])"

text \<open>The positions at which a thread holds \<^verbatim>\<open>_callback_mutex\<close>.\<close>

definition callback_holds_mutex :: "callback_pc \<Rightarrow> bool" where
  "callback_holds_mutex pc = (case pc of CbCheck \<Rightarrow> True | CbSwap \<Rightarrow> True | _ \<Rightarrow> False)"

definition watch_holds_mutex :: "watch_pc \<Rightarrow> bool" where
  "watch_holds_mutex pc = (case pc of MonInsert parsed \<Rightarrow> True | _ \<Rightarrow> False)"

text \<open>
  Two sessions with the same target and callback: no step of a thread changes these.
\<close>

definition same_target :: "FileWatch \<Rightarrow> FileWatch \<Rightarrow> bool" where
  "same_target s0 s \<longleftrightarrow>
     platform s = platform s0 \<and> m_watching_single_file s = m_watching_single_file s0 \<and>
     m_filename s = m_filename s0 \<and> m_callback s = m_callback s0"

text \<open>
  The invariant behind the order of delivery, for a session that started as \<open>s0\<close> with
  the surviving records \<open>reported\<close> to come: the calls made are a prefix of \<open>reported\<close>;
  without a callback no call is made; while the callback is set and the dispatch thread
  runs, the calls made and what waits in the dispatcher and in the queue and in the
  monitoring loop are a prefix of \<open>reported\<close>, and make up \<open>reported\<close> together with the
  survivors of the unread reports while the monitoring thread runs.
\<close>

definition order_inv :: "FileWatch \<Rightarrow> (string \<times> Event) list \<Rightarrow> FileWatch \<Rightarrow> bool" where
  "order_inv s0 reported s \<longleftrightarrow>
     same_target s0 s \<and>
     prefix (callback_log s) reported \<and>
     (m_callback s = None \<longrightarrow> callback_log s = []) \<and>
     (m_callback s \<noteq> None \<and> callback_pc s \<noteq> CbExit \<longrightarrow>
        prefix (callback_log s @ dispatch_pending s @ m_callback_information s @ watch_pending s)
          reported \<and>
        (watch_pc s \<noteq> MonExit \<longrightarrow>
           callback_log s @ dispatch_pending s @ m_callback_information s @ watch_pending s @
             os_order s0 (os_reports s) = reported))"

text \<open>
  The invariant of the queue lock: it is held by the thread that stands at a position
  where it holds it, and the two threads never stand at such positions together.
\<close>

definition mutex_inv :: "FileWatch \<Rightarrow> bool" where
  "mutex_inv s \<longleftrightarrow>
     m_callback_mutex s =
       (if callback_holds_mutex (callback_pc s) then Some CallbackThread
        else if watch_holds_mutex (watch_pc s) then Some WatchThread
        else None) \<and>
     \<not> (callback_holds_mutex (callback_pc s) \<and> watch_holds_mutex (watch_pc s))"

text \<open>
  A report that the monitoring loop gets through: it carries a vector to the queue or,
  for a Linux read without data, goes back to its loop test. The reports that do not are
  those on which the Windows loop throws.
\<close>

definition decodes :: "FileWatch \<Rightarrow> os_report \<Rightarrow> bool" where
  "decodes s r =
     (case decode_report s r of MonLock parsed \<Rightarrow> True | MonWhile \<Rightarrow> True | _ \<Rightarrow> False)"






section \<open>Scenarios\<close>

text \<open>
  A small file system for the scenarios of the specification: a directory \<^verbatim>\<open>D\<close> with a
  regular file \<^verbatim>\<open>D/a.txt\<close>, every system call succeeding, and the given reports
  arriving at the monitoring loop.
\<close>

definition scenario_env :: "os_report list \<Rightarrow> os_env" where
  "scenario_env reports =
     \<lparr>file_status = [''D'' \<mapsto> DirectoryFile, ''D/a.txt'' \<mapsto> RegularFile],
      inotify_init_ok = True,
      watch_ok = (\<lambda>path. True),
      create_event_ok = True,
      notifications = reports\<rparr>"

text \<open>A callback that returns normally on every call.\<close>

definition quiet_callback :: callback_fn where
  "quiet_callback n file event_type = Returns"

text \<open>
  A callback that throws a value that is not a \<^verbatim>\<open>std::exception\<close> (as in
  \<^verbatim>\<open>throw 42;\<close>) on its first call and returns normally afterwards, and one that throws
  a \<^verbatim>\<open>std::runtime_error\<close> on its first call instead.
\<close>

definition throw_int_first :: callback_fn where
  "throw_int_first n file event_type = (if n = 0 then ThrowsOther else Returns)"

definition throw_runtime_error_first :: callback_fn where
  "throw_runtime_error_first n file event_type = (if n = 0 then ThrowsStdException else Returns)"

text \<open>
  The session a successful construction yields. It is used on scenarios whose
  construction succeeds.
\<close>

definition constructed :: "error + FileWatch \<Rightarrow> FileWatch" where
  "constructed r = projr r"

text \<open>
  The session of a scenario: constructed on \<open>path\<close> in the file system above, with the
  given reports to come.
\<close>

definition scenario :: "platform \<Rightarrow> string \<Rightarrow> callback_fn option \<Rightarrow> os_report list \<Rightarrow> FileWatch" where
  "scenario p path cb reports = constructed (new_FileWatch (scenario_env reports) p path cb)"

text \<open>
  A schedule that lets the monitoring thread take \<open>m\<close> steps and then the dispatch
  thread \<open>n\<close> steps.
\<close>

definition watch_then_dispatch :: "nat \<Rightarrow> nat \<Rightarrow> action list" where
  "watch_then_dispatch m n = replicate m (Run WatchThread) @ replicate n (Run CallbackThread)"

text \<open>An inotify record for the entry \<open>file\<close> with the given mask.\<close>

definition inotify_record :: "32 word \<Rightarrow> string \<Rightarrow> inotify_event" where
  "inotify_record m file = \<lparr>wd = 1, mask_field = m, cookie = 0, len = 16, name = file\<rparr>"

text \<open>
  Reports used in the scenarios: on Linux, a batch that creates \<^verbatim>\<open>a.txt\<close> and modifies
  \<^verbatim>\<open>b.txt\<close> followed by a batch that deletes \<^verbatim>\<open>a.txt\<close>; a batch that creates
  \<^verbatim>\<open>a.txt\<close> and \<^verbatim>\<open>b.txt\<close>; the two records of renaming \<^verbatim>\<open>a.txt\<close> to \<^verbatim>\<open>b.txt\<close>
  on each backend; on Windows, a change of \<^verbatim>\<open>a.txt\<close> in the subdirectory \<^verbatim>\<open>sub\<close> and a
  record with the action code 6, which is not in the table.
\<close>

definition create_modify_then_delete :: "os_report list" where
  "create_modify_then_delete =
     [InotifyRead [inotify_record IN_CREATE ''a.txt'', inotify_record IN_MODIFY ''b.txt''],
      InotifyRead [inotify_record IN_DELETE ''a.txt'']]"

definition create_two :: "os_report list" where
  "create_two =
     [InotifyRead [inotify_record IN_CREATE ''a.txt'', inotify_record IN_CREATE ''b.txt'']]"

definition rename_inotify :: "inotify_event list" where
  "rename_inotify =
     [inotify_record IN_MOVED_FROM ''a.txt'', inotify_record IN_MOVED_TO ''b.txt'']"

definition rename_win32 :: "FILE_NOTIFY_INFORMATION list" where
  "rename_win32 =
     [\<lparr>Action = FILE_ACTION_RENAMED_OLD_NAME, FileName = ''a.txt''\<rparr>,
      \<lparr>Action = FILE_ACTION_RENAMED_NEW_NAME, FileName = ''b.txt''\<rparr>]"

definition sub_a_txt :: string where
  "sub_a_txt = ''sub'' @ CHR 0x5C # ''a.txt''"

definition modify_in_subdirectory :: "FILE_NOTIFY_INFORMATION list" where
  "modify_in_subdirectory = [\<lparr>Action = FILE_ACTION_MODIFIED, FileName = sub_a_txt\<rparr>]"

definition unknown_action :: "FILE_NOTIFY_INFORMATION list" where
  "unknown_action = [\<lparr>Action = 6, FileName = ''a.txt''\<rparr>]"

text \<open>
  Scenario of copy assignment: a session on the file \<^verbatim>\<open>D/a.txt\<close>, whose monitoring
  thread has given the readiness signal, is assigned a session on the directory
  \<^verbatim>\<open>D\<close>. During the joins of \<^verbatim>\<open>destroy\<close> the monitoring thread takes two steps and
  the dispatch thread one, which ends both. The handle opened by the assignment will
  report the creation of \<^verbatim>\<open>a.txt\<close> and \<^verbatim>\<open>b.txt\<close>.
\<close>

definition copy_assigned :: "(error + FileWatch) option" where
  "copy_assigned =
     operator_assign (scenario_env create_two) (watch_then_dispatch 2 1) False
       (scenario Unix ''D'' (Some quiet_callback) [])
       (run [Run WatchThread] (scenario Unix ''D/a.txt'' (Some quiet_callback) []))"

section \<open>Properties of target resolution\<close>

lemmas inotify_bits =
  IN_MODIFY_def IN_MOVED_FROM_def IN_MOVED_TO_def IN_CREATE_def IN_DELETE_def IN_IGNORED_def

lemmas file_actions =
  FILE_ACTION_ADDED_def FILE_ACTION_REMOVED_def FILE_ACTION_MODIFIED_def
  FILE_ACTION_RENAMED_OLD_NAME_def FILE_ACTION_RENAMED_NEW_NAME_def

lemma find_if_none: "\<forall>x\<in>set xs. \<not> P x \<Longrightarrow> find_if P xs = length xs"
  by (induction xs) auto

lemma find_if_append_hit:
  "\<forall>x\<in>set xs. \<not> P x \<Longrightarrow> P c \<Longrightarrow> find_if P (xs @ c # ys) = length xs"
  by (induction xs) auto

lemma split_no_separator:
  assumes "\<forall>x\<in>set path. \<not> predict p x"
  shows "split_directory_and_file p path = \<lparr>directory = ''./'', filename = path\<rparr>"
proof -
  have "find_if (predict p) (rev path) = length path"
    using assms find_if_none [of "rev path" "predict p"] by simp
  then show ?thesis
    by (simp add: split_directory_and_file_def this_directory_def)
qed

lemma split_at_last_separator:
  assumes "predict p c" and "\<forall>x\<in>set post. \<not> predict p x"
  shows "split_directory_and_file p (pre @ c # post) = \<lparr>directory = pre @ [c], filename = post\<rparr>"
proof -
  have "find_if (predict p) (rev post @ c # rev pre) = length (rev post)"
    using assms by (intro find_if_append_hit) simp_all
  then have "find_if (predict p) (rev (pre @ c # post)) = length post"
    by simp
  then show ?thesis
    by (simp add: split_directory_and_file_def)
qed

text \<open>
  C5. The separator set is the slash on Linux, the backslash and the slash on Windows. A path
  \<open>pre @ c # post\<close> whose last separator is \<open>c\<close> (none occurs in \<open>post\<close>) splits into
  the directory \<open>pre @ [c]\<close>, everything up to and including that separator, and the
  filename \<open>post\<close>, everything after it. A path without a separator splits into the
  directory \<open>./\<close> and the whole path as filename.
\<close>

theorem split_directory_and_file_last_separator:
  "(predict Unix ch \<longleftrightarrow> ch = CHR ''/'') \<and>
   (predict Win32 ch \<longleftrightarrow> ch = CHR 0x5C \<or> ch = CHR ''/'') \<and>
   (predict p c \<and> (\<forall>x\<in>set post. \<not> predict p x) \<longrightarrow>
      split_directory_and_file p (pre @ c # post) = \<lparr>directory = pre @ [c], filename = post\<rparr>) \<and>
   ((\<forall>x\<in>set path. \<not> predict p x) \<longrightarrow>
      split_directory_and_file p path = \<lparr>directory = ''./'', filename = path\<rparr>)"
  using split_no_separator [of path p] split_at_last_separator [of p c post pre]
  by (simp add: predict_def)

theorem split_directory_and_file_last_separator_witness:
  "predict Unix CHR ''/'' \<and>
   split_directory_and_file Unix ''tmp/D/a.txt'' = \<lparr>directory = ''tmp/D/'', filename = ''a.txt''\<rparr> \<and>
   split_directory_and_file Unix ''a.txt'' = \<lparr>directory = ''./'', filename = ''a.txt''\<rparr>"
  using split_directory_and_file_last_separator
          [of "CHR ''/''" Unix "CHR ''/''" "''a.txt''" "''tmp/D''" "''a.txt''"]
  by (simp add: predict_def)

section \<open>Properties of decoding and filtering\<close>

lemma parse_inotify_buffer_concat:
  "parse_inotify_buffer s events parsed = parsed @ concat (map (parse_inotify_event s) events)"
  by (induction events arbitrary: parsed) simp_all

lemma parse_inotify_event_len_zero: "len event = 0 \<Longrightarrow> parse_inotify_event s event = []"
  by (simp add: parse_inotify_event_def)

lemma parse_inotify_event_source:
  "(file, ev) \<in> set (parse_inotify_event s event) \<Longrightarrow> len event \<noteq> 0 \<and> name event = file"
  by (auto simp: parse_inotify_event_def Let_def split: if_splits)

lemma concat_parse_filter_len:
  "concat (map (parse_inotify_event s) (filter (\<lambda>e. len e \<noteq> 0) events)) =
   concat (map (parse_inotify_event s) events)"
  by (induction events) (simp_all add: parse_inotify_event_len_zero)

text \<open>
  C10. On the Linux backend a record whose name length is zero contributes nothing to
  \<^verbatim>\<open>parsed_information\<close>, whatever its mask: decoding a batch gives the same result as
  decoding the batch without its records of length zero, and every pair that is enqueued
  carries the name of a record of the batch whose length is not zero.
\<close>

theorem inotify_empty_name_skipped:
  "(len event = 0 \<longrightarrow> parse_inotify_event s event = []) \<and>
   parse_inotify_buffer s events parsed =
     parse_inotify_buffer s (filter (\<lambda>e. len e \<noteq> 0) events) parsed \<and>
   (\<forall>queued \<in> set (parse_inotify_buffer s events []).
      \<exists>e \<in> set events. len e \<noteq> 0 \<and> name e = fst queued)"
proof (intro conjI)
  show "len event = 0 \<longrightarrow> parse_inotify_event s event = []"
    by (simp add: parse_inotify_event_len_zero)
  show "parse_inotify_buffer s events parsed =
     parse_inotify_buffer s (filter (\<lambda>e. len e \<noteq> 0) events) parsed"
    by (simp add: parse_inotify_buffer_concat concat_parse_filter_len)
  show "\<forall>queued \<in> set (parse_inotify_buffer s events []).
      \<exists>e \<in> set events. len e \<noteq> 0 \<and> name e = fst queued"
  proof
    fix queued
    assume "queued \<in> set (parse_inotify_buffer s events [])"
    then obtain e where e: "e \<in> set events" and q: "queued \<in> set (parse_inotify_event s e)"
      by (auto simp: parse_inotify_buffer_concat)
    from q have "len e \<noteq> 0 \<and> name e = fst queued"
      using parse_inotify_event_source [of "fst queued" "snd queued" s e] by simp
    with e show "\<exists>e \<in> set events. len e \<noteq> 0 \<and> name e = fst queued"
      by blast
  qed
qed

text \<open>The sessions of the scenarios, as construction leaves them.\<close>

lemma scenario_unix_directory:
  "scenario Unix ''D'' cb reports =
         \<lparr>platform = Unix, m_path = ''D'', m_watching_single_file = False, m_filename = [],
          m_destroy = False, m_callback = cb, m_callback_mutex = None,
          m_callback_information = [], m_running = False, m_directory = ''D'',
          watch_pc = MonStart, callback_pc = CbWhile,
          os_reports = reports, callback_log = []\<rparr>"
  by (simp add: scenario_def constructed_def new_FileWatch_def get_directory_def is_file_def
      open_watch_def init_def scenario_env_def)

lemma scenario_unix_single_file:
  "scenario Unix ''D/a.txt'' cb reports =
         \<lparr>platform = Unix, m_path = ''D/a.txt'', m_watching_single_file = True,
          m_filename = ''a.txt'',
          m_destroy = False, m_callback = cb, m_callback_mutex = None,
          m_callback_information = [], m_running = False, m_directory = ''D/'',
          watch_pc = MonStart, callback_pc = CbWhile,
          os_reports = reports, callback_log = []\<rparr>"
  by (simp add: scenario_def constructed_def new_FileWatch_def get_directory_def is_file_def
      open_watch_def init_def scenario_env_def split_directory_and_file_def predict_def)

lemma scenario_win32_directory:
  "scenario Win32 ''D'' cb reports =
         \<lparr>platform = Win32, m_path = ''D'', m_watching_single_file = False, m_filename = [],
          m_destroy = False, m_callback = cb, m_callback_mutex = None,
          m_callback_information = [], m_running = False, m_directory = ''D'',
          watch_pc = MonStart, callback_pc = CbWhile,
          os_reports = reports, callback_log = []\<rparr>"
  by (simp add: scenario_def constructed_def new_FileWatch_def get_directory_def is_file_def
      open_watch_def init_def scenario_env_def)

lemma scenario_win32_single_file:
  "scenario Win32 ''D/a.txt'' cb reports =
         \<lparr>platform = Win32, m_path = ''D/a.txt'', m_watching_single_file = True,
          m_filename = ''a.txt'',
          m_destroy = False, m_callback = cb, m_callback_mutex = None,
          m_callback_information = [], m_running = False, m_directory = ''D/'',
          watch_pc = MonStart, callback_pc = CbWhile,
          os_reports = reports, callback_log = []\<rparr>"
  by (simp add: scenario_def constructed_def new_FileWatch_def get_directory_def is_file_def
      open_watch_def init_def scenario_env_def split_directory_and_file_def predict_def)

lemmas scenarios = scenario_unix_directory scenario_unix_single_file
  scenario_win32_directory scenario_win32_single_file

theorem inotify_empty_name_skipped_witness:
  "parse_inotify_event (scenario Unix ''D'' None [])
      \<lparr>wd = 1, mask_field = IN_CREATE, cookie = 0, len = 0, name = ''a.txt''\<rparr> = [] \<and>
   parse_inotify_buffer (scenario Unix ''D'' None [])
      [\<lparr>wd = 1, mask_field = IN_CREATE, cookie = 0, len = 0, name = ''a.txt''\<rparr>,
       inotify_record IN_CREATE ''b.txt''] [] = [(''b.txt'', CREATED)]"
  using inotify_empty_name_skipped
          [of "\<lparr>wd = 1, mask_field = IN_CREATE, cookie = 0, len = 0, name = ''a.txt''\<rparr>"
              "scenario Unix ''D'' None []"
              "[\<lparr>wd = 1, mask_field = IN_CREATE, cookie = 0, len = 0, name = ''a.txt''\<rparr>,
                inotify_record IN_CREATE ''b.txt'']" "[]"]
  by (simp add: scenarios inotify_record_def parse_inotify_event_def pass_filter_def inotify_bits)

lemma word_and_or3_zero:
  "(w::32 word) AND (a OR b OR c) = 0 \<Longrightarrow> w AND a = 0 \<and> w AND b = 0 \<and> w AND c = 0"
  by (auto simp: bit_eq_iff bit_and_iff bit_or_iff)

text \<open>
  C9. In a single-file session the filter accepts a reported name exactly when the part
  after its last separator equals the stored filename. So a name with directory
  components \<open>dir @ c # base\<close> (the Windows backend asks for the whole subtree at
  line 307 and reports such names) passes exactly when \<open>base\<close> is the watched filename,
  and a name without a separator passes exactly when it is the watched filename.
\<close>

theorem pass_filter_final_component:
  "m_watching_single_file s \<Longrightarrow>
   (pass_filter s file_path \<longleftrightarrow>
      filename (split_directory_and_file (platform s) file_path) = m_filename s) \<and>
   (predict (platform s) c \<and> (\<forall>x\<in>set base. \<not> predict (platform s) x) \<longrightarrow>
      (pass_filter s (dir @ c # base) \<longleftrightarrow> base = m_filename s)) \<and>
   ((\<forall>x\<in>set file_path. \<not> predict (platform s) x) \<longrightarrow>
      (pass_filter s file_path \<longleftrightarrow> file_path = m_filename s))"
  using split_no_separator [of file_path "platform s"]
        split_at_last_separator [of "platform s" c base dir]
  by (simp add: pass_filter_def)

theorem pass_filter_final_component_witness:
  "m_watching_single_file (scenario Win32 ''D/a.txt'' None []) \<and>
   m_filename (scenario Win32 ''D/a.txt'' None []) = ''a.txt'' \<and>
   pass_filter (scenario Win32 ''D/a.txt'' None [])
     sub_a_txt \<and>
   sub_a_txt \<noteq> ''a.txt''"
  using pass_filter_final_component
          [of "scenario Win32 ''D/a.txt'' None []"
              "''a.txt''" "CHR 0x5C" "''a.txt''" "''sub''"]
  by (simp add: scenarios predict_def sub_a_txt_def)

lemma parse_notify_information_mapped:
  "\<forall>r\<in>set infos. pass_filter s (FileName r) \<longrightarrow> event_type_mapping (Action r) \<noteq> None \<Longrightarrow>
   parse_notify_information s infos parsed =
     Inr (parsed @ map (\<lambda>r. (FileName r, the (event_type_mapping (Action r))))
                       (filter (\<lambda>r. pass_filter s (FileName r)) infos))"
  by (induction infos arbitrary: parsed) (auto simp: Let_def)

lemma parse_inotify_event_table:
  "len e \<noteq> 0 \<Longrightarrow> pass_filter s (name e) \<Longrightarrow> mask_field e AND IN_CREATE \<noteq> 0 \<Longrightarrow>
     parse_inotify_event s e = [(name e, CREATED)]"
  "len e \<noteq> 0 \<Longrightarrow> pass_filter s (name e) \<Longrightarrow> mask_field e AND IN_CREATE = 0 \<Longrightarrow>
     mask_field e AND IN_DELETE \<noteq> 0 \<Longrightarrow> parse_inotify_event s e = [(name e, DELETED)]"
  "len e \<noteq> 0 \<Longrightarrow> pass_filter s (name e) \<Longrightarrow> mask_field e AND IN_CREATE = 0 \<Longrightarrow>
     mask_field e AND IN_DELETE = 0 \<Longrightarrow> mask_field e AND IN_MODIFY \<noteq> 0 \<Longrightarrow>
     parse_inotify_event s e = [(name e, CHANGED)]"
  "mask_field e AND listen_filters = 0 \<Longrightarrow> parse_inotify_event s e = []"
  using word_and_or3_zero [of "mask_field e" IN_MODIFY IN_CREATE IN_DELETE]
  by (simp_all add: parse_inotify_event_def listen_filters_def Let_def)

lemma event_type_mapping_table:
  "event_type_mapping FILE_ACTION_ADDED = Some CREATED"
  "event_type_mapping FILE_ACTION_REMOVED = Some DELETED"
  "event_type_mapping FILE_ACTION_MODIFIED = Some CHANGED"
  "event_type_mapping FILE_ACTION_RENAMED_OLD_NAME = Some RENAMED_OLD"
  "event_type_mapping FILE_ACTION_RENAMED_NEW_NAME = Some RENAMED_NEW"
  by (simp_all add: event_type_mapping_def file_actions)

text \<open>
  C4, as amended. Windows: the five action codes of the table are mapped to Created,
  Deleted, Changed, RenamedOld and RenamedNew, and a batch in which every record that
  passes the filter has a code of the table decodes to the mapped records that pass the
  filter, in order. Linux: a batch decodes to the concatenation of what its records give,
  so decoding cannot fail; a named record that passes the filter gives Created when the
  create bit is set, else Deleted when the delete bit is set, else Changed when the
  modify bit is set; a record with none of the three bits listened for gives nothing.
  There is no rename mapping on Linux.
\<close>

theorem action_codes_mapped_by_backend:
  "event_type_mapping FILE_ACTION_ADDED = Some CREATED \<and>
   event_type_mapping FILE_ACTION_REMOVED = Some DELETED \<and>
   event_type_mapping FILE_ACTION_MODIFIED = Some CHANGED \<and>
   event_type_mapping FILE_ACTION_RENAMED_OLD_NAME = Some RENAMED_OLD \<and>
   event_type_mapping FILE_ACTION_RENAMED_NEW_NAME = Some RENAMED_NEW \<and>
   ((\<forall>r\<in>set infos. pass_filter s (FileName r) \<longrightarrow> event_type_mapping (Action r) \<noteq> None) \<longrightarrow>
      parse_notify_information s infos [] =
        Inr (map (\<lambda>r. (FileName r, the (event_type_mapping (Action r))))
                 (filter (\<lambda>r. pass_filter s (FileName r)) infos))) \<and>
   parse_inotify_buffer s events [] = concat (map (parse_inotify_event s) events) \<and>
   (len e \<noteq> 0 \<and> pass_filter s (name e) \<and> mask_field e AND IN_CREATE \<noteq> 0 \<longrightarrow>
      parse_inotify_event s e = [(name e, CREATED)]) \<and>
   (len e \<noteq> 0 \<and> pass_filter s (name e) \<and> mask_field e AND IN_CREATE = 0 \<and>
    mask_field e AND IN_DELETE \<noteq> 0 \<longrightarrow>
      parse_inotify_event s e = [(name e, DELETED)]) \<and>
   (len e \<noteq> 0 \<and> pass_filter s (name e) \<and> mask_field e AND IN_CREATE = 0 \<and>
    mask_field e AND IN_DELETE = 0 \<and> mask_field e AND IN_MODIFY \<noteq> 0 \<longrightarrow>
      parse_inotify_event s e = [(name e, CHANGED)]) \<and>
   (mask_field e AND listen_filters = 0 \<longrightarrow> parse_inotify_event s e = [])"
  using parse_notify_information_mapped [of infos s "[]"]
  by (simp add: event_type_mapping_table parse_inotify_event_table parse_inotify_buffer_concat)

theorem action_codes_mapped_by_backend_witness:
  "parse_notify_information (scenario Win32 ''D'' None [])
     [\<lparr>Action = FILE_ACTION_ADDED, FileName = ''a.txt''\<rparr>,
      \<lparr>Action = FILE_ACTION_RENAMED_OLD_NAME, FileName = ''b.txt''\<rparr>] []
     = Inr [(''a.txt'', CREATED), (''b.txt'', RENAMED_OLD)] \<and>
   parse_inotify_event (scenario Unix ''D'' None [])
     (inotify_record IN_DELETE ''a.txt'') = [(''a.txt'', DELETED)] \<and>
   parse_inotify_event (scenario Unix ''D'' None [])
     (inotify_record IN_MOVED_FROM ''a.txt'') = []"
  using action_codes_mapped_by_backend
          [of "[\<lparr>Action = FILE_ACTION_ADDED, FileName = ''a.txt''\<rparr>,
                \<lparr>Action = FILE_ACTION_RENAMED_OLD_NAME, FileName = ''b.txt''\<rparr>]"
              "scenario Win32 ''D'' None []"
              "[]" "inotify_record IN_DELETE ''a.txt''"]
        action_codes_mapped_by_backend
          [of "[]" "scenario Unix ''D'' None []"
              "[]" "inotify_record IN_DELETE ''a.txt''"]
        action_codes_mapped_by_backend
          [of "[]" "scenario Unix ''D'' None []"
              "[]" "inotify_record IN_MOVED_FROM ''a.txt''"]
  by (simp add: scenarios pass_filter_def inotify_record_def inotify_bits listen_filters_def)

text \<open>
  C4 as stated fails. On Windows a record with an action code outside the table makes
  the lookup of line 331 throw: the decoding of the batch fails and the monitoring
  thread ends. On Linux the records of a rename (moved-from, moved-to) are dropped, not
  mapped to RenamedOld and RenamedNew.
\<close>

theorem unknown_action_code_counterexample:
  "parse_notify_information (scenario Win32 ''D'' None []) unknown_action []
     = Inl out_of_range \<and>
   watch_pc (run (watch_then_dispatch 2 0)
     (scenario Win32 ''D'' (Some quiet_callback)
        [DirectoryChanges (WAIT_OBJECT_0 True unknown_action)])) = MonExit \<and>
   parse_inotify_buffer (scenario Unix ''D'' None [])
     rename_inotify [] = []"
  by code_simp

text \<open>
  C1 fails on the Windows backend. A session on the single file \<^verbatim>\<open>D/a.txt\<close> stores the
  filename \<^verbatim>\<open>a.txt\<close>; a change of \<^verbatim>\<open>D\sub\a.txt\<close>, reported under the name
  \<^verbatim>\<open>sub\a.txt\<close>, passes the filter, is enqueued and is delivered to the callback under
  that name, which differs from the watched filename.
\<close>

theorem single_file_filter_passes_subdirectory_entry:
  "m_watching_single_file (scenario Win32 ''D/a.txt'' (Some quiet_callback) []) \<and>
   m_filename (scenario Win32 ''D/a.txt'' (Some quiet_callback) []) = ''a.txt'' \<and>
   callback_log (run (watch_then_dispatch 4 5)
     (scenario Win32 ''D/a.txt'' (Some quiet_callback)
        [DirectoryChanges (WAIT_OBJECT_0 True modify_in_subdirectory)]))
     = [(sub_a_txt, CHANGED)] \<and>
   sub_a_txt \<noteq> ''a.txt''"
  by code_simp

section \<open>Properties of the two threads\<close>

text \<open>What construction leaves behind when it succeeds.\<close>

lemma new_FileWatch_fresh:
  assumes "new_FileWatch env p path cb = Inr s0"
  shows "platform s0 = p" "m_path s0 = path" "m_destroy s0 = False" "m_callback s0 = cb"
    "m_callback_mutex s0 = None" "m_callback_information s0 = []"
    "watch_pc s0 = MonStart" "callback_pc s0 = CbWhile"
    "os_reports s0 = notifications env" "callback_log s0 = []"
  using assms
  by (auto simp: new_FileWatch_def get_directory_def is_file_def open_watch_def init_def Let_def
      split: platform.splits option.splits if_splits sum.splits)

text \<open>No step of a session changes its target or its callback, nor what a report decodes to.\<close>

lemma pass_filter_same_target: "same_target s0 s \<Longrightarrow> pass_filter s f = pass_filter s0 f"
  by (simp add: same_target_def pass_filter_def)

lemma parse_inotify_event_same_target:
  "same_target s0 s \<Longrightarrow> parse_inotify_event s e = parse_inotify_event s0 e"
  by (simp add: parse_inotify_event_def pass_filter_same_target)

lemma parse_inotify_buffer_same_target:
  "same_target s0 s \<Longrightarrow> parse_inotify_buffer s es acc = parse_inotify_buffer s0 es acc"
  by (induction es arbitrary: acc) (simp_all add: parse_inotify_event_same_target)

lemma parse_notify_information_same_target:
  "same_target s0 s \<Longrightarrow> parse_notify_information s rs acc = parse_notify_information s0 rs acc"
  by (induction rs arbitrary: acc)
     (simp_all add: pass_filter_same_target Let_def split: option.splits)

lemma decode_report_same_target:
  assumes "same_target s0 s"
  shows "decode_report s r = decode_report s0 r"
proof -
  have "platform s = platform s0"
    using assms by (simp add: same_target_def)
  then show ?thesis
    by (simp add: decode_report_def parse_inotify_buffer_same_target [OF assms]
        parse_notify_information_same_target [OF assms]
        split: platform.splits os_report.splits wait_result.splits)
qed

lemma same_target_monitor: "same_target s0 s \<Longrightarrow> same_target s0 (monitor_directory s)"
  by (auto simp: same_target_def monitor_directory_def split: watch_pc.splits list.splits)

lemma same_target_callback: "same_target s0 s \<Longrightarrow> same_target s0 (callback_thread s)"
  by (auto simp: same_target_def callback_thread_def invoke_callback_def
      split: callback_pc.splits list.splits option.splits callback_result.splits)

lemma same_target_destroy: "same_target s0 s \<Longrightarrow> same_target s0 (destroy_begin s)"
  by (simp add: same_target_def destroy_begin_def)

lemma enqueued_for_wake: "enqueued_for s (wake_report (platform s)) = []"
  by (cases "platform s")
     (simp_all add: enqueued_for_def decode_report_def wake_report_def parse_inotify_event_def)

subsection \<open>Order of delivery\<close>

lemma prefix_of_eq: "xs @ ys = reported \<Longrightarrow> prefix xs reported"
  by auto

lemma decode_report_range [simp]:
  "decode_report s r \<noteq> MonInsert p" "decode_report s r \<noteq> MonStart"
  by (auto simp: decode_report_def split: platform.splits os_report.splits wait_result.splits
      sum.splits)

lemma order_inv_monitor:
  assumes "order_inv s0 reported s"
  shows "order_inv s0 reported (monitor_directory s)"
proof -
  have st: "same_target s0 s" and st': "same_target s0 (monitor_directory s)"
    using assms same_target_monitor by (simp_all add: order_inv_def)
  show ?thesis
  proof (cases "watch_pc s")
    case MonRead
    show ?thesis
    proof (cases "os_reports s")
      case Nil
      with MonRead assms show ?thesis by (simp add: monitor_directory_def)
    next
      case (Cons r rest)
      have dr: "decode_report s r = decode_report s0 r"
        by (rule decode_report_same_target [OF st])
      show ?thesis
        using MonRead Cons dr assms st'
        by (cases "decode_report s0 r")
           (auto simp: order_inv_def monitor_directory_def os_order_def
              enqueued_for_def dispatch_pending_def watch_pending_def
              intro: prefix_of_eq)
    qed
  qed (use assms st' in \<open>auto simp: order_inv_def monitor_directory_def
         dispatch_pending_def watch_pending_def split: platform.splits intro: prefix_of_eq\<close>)
qed

lemma order_inv_callback:
  assumes "order_inv s0 reported s"
  shows "order_inv s0 reported (callback_thread s)"
proof -
  have st': "same_target s0 (callback_thread s)"
    using assms same_target_callback by (simp add: order_inv_def)
  show ?thesis
  proof (cases "callback_pc s")
    case (CbFor evs)
    show ?thesis
    proof (cases evs)
      case Nil
      with CbFor assms st' show ?thesis
        by (auto simp: order_inv_def callback_thread_def dispatch_pending_def watch_pending_def)
    next
      case (Cons ev rest)
      have pre: "prefix (xs @ [ev]) reported" if "prefix (xs @ ev # ys) reported" for xs ys
        using that by (metis append.assoc append_Cons append_Nil append_prefixD)
      from Cons CbFor assms st' pre show ?thesis
        by (auto simp: order_inv_def callback_thread_def invoke_callback_def
            dispatch_pending_def watch_pending_def
            split: option.splits callback_result.splits)
    qed
  qed (use assms st' in \<open>auto simp: order_inv_def callback_thread_def
         dispatch_pending_def watch_pending_def\<close>)
qed

lemma order_inv_destroy:
  assumes "order_inv s0 reported s"
  shows "order_inv s0 reported (destroy_begin s)"
proof -
  have "same_target s0 s"
    using assms by (simp add: order_inv_def)
  then have "enqueued_for s0 (wake_report (platform s)) = []"
    using enqueued_for_wake [of s0] by (simp add: same_target_def)
  with assms show ?thesis
    by (auto simp: order_inv_def destroy_begin_def same_target_def os_order_def
        dispatch_pending_def watch_pending_def)
qed

lemma order_inv_run: "order_inv s0 reported s \<Longrightarrow> order_inv s0 reported (run acts s)"
proof (induction acts arbitrary: s)
  case Nil
  then show ?case by simp
next
  case (Cons a acts)
  have "order_inv s0 reported (sched_step a s)"
  proof (cases a)
    case (Run th)
    with Cons.prems show ?thesis
      by (cases th) (simp_all add: order_inv_monitor order_inv_callback)
  next
    case Destroy
    with Cons.prems show ?thesis by (simp add: order_inv_destroy)
  qed
  then show ?case
    using Cons.IH by simp
qed

lemma order_inv_fresh:
  assumes "new_FileWatch env p path cb = Inr s0"
  shows "order_inv s0 (os_order s0 (notifications env)) s0"
  using new_FileWatch_fresh [OF assms]
  by (simp add: order_inv_def same_target_def dispatch_pending_def watch_pending_def)


lemma enqueued_for_inotify:
  "platform s = Unix \<Longrightarrow>
   enqueued_for s (InotifyRead events) = concat (map (parse_inotify_event s) events)"
  by (simp add: enqueued_for_def decode_report_def parse_inotify_buffer_concat)

subsection \<open>The queue lock\<close>

lemma mutex_inv_monitor: "mutex_inv s \<Longrightarrow> mutex_inv (monitor_directory s)"
  by (cases "watch_pc s")
     (auto simp: mutex_inv_def monitor_directory_def watch_holds_mutex_def
       split: platform.splits list.splits if_splits watch_pc.splits)

lemma mutex_inv_callback: "mutex_inv s \<Longrightarrow> mutex_inv (callback_thread s)"
  by (cases "callback_pc s")
     (auto simp: mutex_inv_def callback_thread_def invoke_callback_def callback_holds_mutex_def
       split: list.splits if_splits option.splits callback_result.splits)

lemma mutex_inv_destroy: "mutex_inv s \<Longrightarrow> mutex_inv (destroy_begin s)"
  by (simp add: mutex_inv_def destroy_begin_def)

lemma mutex_inv_run: "mutex_inv s \<Longrightarrow> mutex_inv (run acts s)"
proof (induction acts arbitrary: s)
  case Nil
  then show ?case by simp
next
  case (Cons a acts)
  have "mutex_inv (sched_step a s)"
  proof (cases a)
    case (Run th)
    with Cons.prems show ?thesis
      by (cases th) (simp_all add: mutex_inv_monitor mutex_inv_callback)
  next
    case Destroy
    with Cons.prems show ?thesis by (simp add: mutex_inv_destroy)
  qed
  then show ?case
    using Cons.IH by simp
qed

lemma mutex_inv_fresh:
  assumes "new_FileWatch env p path cb = Inr s0"
  shows "mutex_inv s0"
  using new_FileWatch_fresh [OF assms]
  by (simp add: mutex_inv_def callback_holds_mutex_def watch_holds_mutex_def)

subsection \<open>The dispatch loop\<close>


lemma dispatch_loop_completes:
  assumes "callback_pc s = CbFor evs" and "m_callback s = Some f"
    and "\<forall>i<length evs.
           f (length (callback_log s) + i) (fst (evs ! i)) (snd (evs ! i)) \<noteq> ThrowsOther"
  shows "callback_log (run (replicate (length evs) (Run CallbackThread)) s) = callback_log s @ evs \<and>
         callback_pc (run (replicate (length evs) (Run CallbackThread)) s) = CbFor []"
  using assms
proof (induction evs arbitrary: s)
  case Nil
  then show ?case by simp
next
  case (Cons ev rest)
  let ?s = "callback_thread s"
  from Cons.prems(3) have "f (length (callback_log s)) (fst ev) (snd ev) \<noteq> ThrowsOther"
    by auto
  with Cons.prems(1,2) have step: "callback_pc ?s = CbFor rest" "m_callback ?s = Some f"
      "callback_log ?s = callback_log s @ [ev]"
    by (auto simp: callback_thread_def invoke_callback_def split: callback_result.splits)
  have "\<forall>i<length rest.
           f (length (callback_log ?s) + i) (fst (rest ! i)) (snd (rest ! i)) \<noteq> ThrowsOther"
  proof (intro allI impI)
    fix i assume "i < length rest"
    then have "f (length (callback_log s) + Suc i) (fst ((ev # rest) ! Suc i))
                 (snd ((ev # rest) ! Suc i)) \<noteq> ThrowsOther"
      using Cons.prems(3) by (metis Suc_less_eq length_Cons)
    then show "f (length (callback_log ?s) + i) (fst (rest ! i)) (snd (rest ! i)) \<noteq> ThrowsOther"
      by (simp add: step)
  qed
  from Cons.IH [OF step(1,2) this] show ?case
    by (simp add: step)
qed

lemma callback_exit_final:
  "callback_pc s = CbExit \<Longrightarrow>
   callback_pc (run acts s) = CbExit \<and> callback_log (run acts s) = callback_log s"
proof (induction acts arbitrary: s)
  case Nil
  then show ?case by simp
next
  case (Cons a acts)
  have "callback_pc (sched_step a s) = CbExit \<and> callback_log (sched_step a s) = callback_log s"
  proof (cases a)
    case (Run th)
    with Cons.prems show ?thesis
      by (cases th)
         (auto simp: callback_thread_def monitor_directory_def split: watch_pc.splits list.splits)
  next
    case Destroy
    with Cons.prems show ?thesis by (simp add: destroy_begin_def)
  qed
  with Cons.IH [of "sched_step a s"] show ?case by simp
qed

subsection \<open>Progress under a fair schedule\<close>














lemma parse_notify_information_unknown:
  "\<exists>r\<in>set infos. pass_filter s (FileName r) \<and> event_type_mapping (Action r) = None \<Longrightarrow>
   parse_notify_information s infos parsed = Inl out_of_range"
  by (induction infos arbitrary: parsed) (auto simp: Let_def split: option.splits)

lemma enqueued_for_win32:
  assumes "platform s = Win32"
  shows "\<forall>r\<in>set infos. pass_filter s (FileName r) \<longrightarrow> event_type_mapping (Action r) \<noteq> None \<Longrightarrow>
         decodes s (DirectoryChanges (WAIT_OBJECT_0 True infos)) \<and>
         enqueued_for s (DirectoryChanges (WAIT_OBJECT_0 True infos)) =
           map (\<lambda>r. (FileName r, the (event_type_mapping (Action r))))
               (filter (\<lambda>r. pass_filter s (FileName r)) infos)"
    and "\<exists>r\<in>set infos. pass_filter s (FileName r) \<and> event_type_mapping (Action r) = None \<Longrightarrow>
         enqueued_for s (DirectoryChanges (WAIT_OBJECT_0 True infos)) = []"
  using assms
  by (simp_all add: enqueued_for_def decodes_def decode_report_def
      parse_notify_information_mapped parse_notify_information_unknown)


subsection \<open>The claims about both threads\<close>

lemma scenario_new:
  "new_FileWatch (scenario_env reports) p ''D'' cb = Inr (scenario p ''D'' cb reports)"
  by (cases p)
     (simp_all add: new_FileWatch_def get_directory_def is_file_def open_watch_def init_def
       scenario_env_def constructed_def scenario_def)

text \<open>
  C6. Let \<open>s\<close> be any state a constructed session reaches, under any interleaving of
  the steps of its two threads and of a call of \<^verbatim>\<open>destroy\<close>. The calls of the callback
  made so far are a prefix of the surviving records in the order in which the operating
  system reports them: no call is out of order, repeated or made after a later record.
  While the callback is set and both threads run, nothing in flight is lost or
  reordered either: the calls made, then the dispatcher's local vector, then the queue,
  then the monitoring loop's local vector, then the survivors of the reports not yet
  read make up that sequence. The survivors of successive batches follow each other in
  arrival order. Those of one batch follow the order of its records on both backends:
  on Linux they are what the records give one after the other; on Windows they are the
  records that pass the filter, in record order, each with the variant of the table, when
  all of these have a code of the table, and there is no survivor when one has not.
\<close>

theorem callback_order_is_os_report_order:
  assumes "new_FileWatch env p path cb = Inr s0" and "s = run acts s0"
  shows "prefix (callback_log s) (os_order s0 (notifications env)) \<and>
         (m_callback s \<noteq> None \<and> callback_pc s \<noteq> CbExit \<and> watch_pc s \<noteq> MonExit \<longrightarrow>
            callback_log s @ dispatch_pending s @ m_callback_information s @ watch_pending s @
              os_order s0 (os_reports s) = os_order s0 (notifications env)) \<and>
         os_order s0 (batches @ later) = os_order s0 batches @ os_order s0 later \<and>
         os_order s0 [r] = enqueued_for s0 r \<and>
         (p = Unix \<longrightarrow>
            enqueued_for s0 (InotifyRead events) = concat (map (parse_inotify_event s0) events)) \<and>
         (p = Win32 \<and>
          (\<forall>i\<in>set infos. pass_filter s0 (FileName i) \<longrightarrow> event_type_mapping (Action i) \<noteq> None) \<longrightarrow>
            enqueued_for s0 (DirectoryChanges (WAIT_OBJECT_0 True infos)) =
              map (\<lambda>i. (FileName i, the (event_type_mapping (Action i))))
                  (filter (\<lambda>i. pass_filter s0 (FileName i)) infos)) \<and>
         (p = Win32 \<and>
          (\<exists>i\<in>set infos. pass_filter s0 (FileName i) \<and> event_type_mapping (Action i) = None) \<longrightarrow>
            enqueued_for s0 (DirectoryChanges (WAIT_OBJECT_0 True infos)) = [])"
proof -
  have inv: "order_inv s0 (os_order s0 (notifications env)) s"
    unfolding assms(2) by (rule order_inv_run [OF order_inv_fresh [OF assms(1)]])
  have p: "platform s0 = p"
    using new_FileWatch_fresh(1) [OF assms(1)] .
  have log: "prefix (callback_log s) (os_order s0 (notifications env))"
    and flight: "m_callback s \<noteq> None \<and> callback_pc s \<noteq> CbExit \<and> watch_pc s \<noteq> MonExit \<longrightarrow>
            callback_log s @ dispatch_pending s @ m_callback_information s @ watch_pending s @
              os_order s0 (os_reports s) = os_order s0 (notifications env)"
    using inv by (simp_all add: order_inv_def)
  have batches: "os_order s0 (batches @ later) = os_order s0 batches @ os_order s0 later"
      "os_order s0 [r] = enqueued_for s0 r"
    by (simp_all add: os_order_def)
  have unix: "p = Unix \<longrightarrow>
            enqueued_for s0 (InotifyRead events) = concat (map (parse_inotify_event s0) events)"
    using p by (simp add: enqueued_for_inotify)
  have win: "p = Win32 \<and>
          (\<forall>i\<in>set infos. pass_filter s0 (FileName i) \<longrightarrow> event_type_mapping (Action i) \<noteq> None) \<longrightarrow>
            enqueued_for s0 (DirectoryChanges (WAIT_OBJECT_0 True infos)) =
              map (\<lambda>i. (FileName i, the (event_type_mapping (Action i))))
                  (filter (\<lambda>i. pass_filter s0 (FileName i)) infos)"
    using p enqueued_for_win32(1) [of s0 infos] by simp
  have lost: "p = Win32 \<and>
          (\<exists>i\<in>set infos. pass_filter s0 (FileName i) \<and> event_type_mapping (Action i) = None) \<longrightarrow>
            enqueued_for s0 (DirectoryChanges (WAIT_OBJECT_0 True infos)) = []"
    using p enqueued_for_win32(2) [of s0 infos] by simp
  from log flight batches unix win lost show ?thesis
    by blast
qed

theorem callback_order_is_os_report_order_witness:
  "prefix
     (callback_log (run (watch_then_dispatch 5 4 @ watch_then_dispatch 4 20)
        (scenario Unix ''D'' (Some quiet_callback) create_modify_then_delete)))
     (os_order (scenario Unix ''D'' (Some quiet_callback) create_modify_then_delete)
        create_modify_then_delete) \<and>
   callback_log (run (watch_then_dispatch 5 4 @ watch_then_dispatch 4 20)
        (scenario Unix ''D'' (Some quiet_callback) create_modify_then_delete))
     = [(''a.txt'', CREATED), (''b.txt'', CHANGED), (''a.txt'', DELETED)] \<and>
   enqueued_for
     (scenario Win32 ''D'' (Some quiet_callback) [DirectoryChanges (WAIT_OBJECT_0 True rename_win32)])
     (DirectoryChanges (WAIT_OBJECT_0 True rename_win32))
     = [(''a.txt'', RENAMED_OLD), (''b.txt'', RENAMED_NEW)] \<and>
   callback_log (run (watch_then_dispatch 4 6)
     (scenario Win32 ''D'' (Some quiet_callback) [DirectoryChanges (WAIT_OBJECT_0 True rename_win32)]))
     = [(''a.txt'', RENAMED_OLD), (''b.txt'', RENAMED_NEW)]"
proof (intro conjI)
  show "prefix
     (callback_log (run (watch_then_dispatch 5 4 @ watch_then_dispatch 4 20)
        (scenario Unix ''D'' (Some quiet_callback) create_modify_then_delete)))
     (os_order (scenario Unix ''D'' (Some quiet_callback) create_modify_then_delete)
        create_modify_then_delete)"
    using callback_order_is_os_report_order [OF scenario_new refl]
    by (simp add: scenario_env_def)
  show "callback_log (run (watch_then_dispatch 5 4 @ watch_then_dispatch 4 20)
        (scenario Unix ''D'' (Some quiet_callback) create_modify_then_delete))
     = [(''a.txt'', CREATED), (''b.txt'', CHANGED), (''a.txt'', DELETED)]"
    by code_simp
  have "\<forall>i\<in>set rename_win32.
          pass_filter (scenario Win32 ''D'' (Some quiet_callback)
                         [DirectoryChanges (WAIT_OBJECT_0 True rename_win32)]) (FileName i) \<longrightarrow>
          event_type_mapping (Action i) \<noteq> None"
    by (simp add: rename_win32_def event_type_mapping_table)
  with callback_order_is_os_report_order
      [OF scenario_new [where p = Win32 and cb = "Some quiet_callback"
            and reports = "[DirectoryChanges (WAIT_OBJECT_0 True rename_win32)]"] refl,
       where infos = rename_win32 and acts = "[]" and batches = "[]" and later = "[]"
         and events = "[]" and r = "DirectoryChanges (WAIT_OBJECT_0 True rename_win32)"]
  show "enqueued_for
     (scenario Win32 ''D'' (Some quiet_callback) [DirectoryChanges (WAIT_OBJECT_0 True rename_win32)])
     (DirectoryChanges (WAIT_OBJECT_0 True rename_win32))
     = [(''a.txt'', RENAMED_OLD), (''b.txt'', RENAMED_NEW)]"
    by (simp add: rename_win32_def event_type_mapping_table scenarios pass_filter_def)
  show "callback_log (run (watch_then_dispatch 4 6)
     (scenario Win32 ''D'' (Some quiet_callback) [DirectoryChanges (WAIT_OBJECT_0 True rename_win32)]))
     = [(''a.txt'', RENAMED_OLD), (''b.txt'', RENAMED_NEW)]"
    by code_simp
qed

text \<open>
  C8. In every state \<open>s\<close> a constructed session reaches: when the dispatcher is about to
  swap it holds the queue lock, and its step leaves the shared queue empty, makes the
  local vector exactly the former queue, in order, and releases the lock; a dispatcher
  that wakes from its wait, and one that finds the queue not empty, goes to the swap; and
  whenever a step of the dispatcher calls the callback, the dispatcher is in its loop
  over the local vector and does not hold the lock.
\<close>

theorem dispatcher_bulk_swap:
  assumes "new_FileWatch env p path cb = Inr s0" and "s = run acts s0"
  shows "(callback_pc s = CbSwap \<longrightarrow>
            m_callback_mutex s = Some CallbackThread \<and>
            callback_pc (callback_thread s) = CbFor (m_callback_information s) \<and>
            m_callback_information (callback_thread s) = [] \<and>
            m_callback_mutex (callback_thread s) = None) \<and>
         (callback_pc s = CbWait \<longrightarrow>
            callback_thread s = s \<or> callback_pc (callback_thread s) = CbSwap) \<and>
         (callback_pc s = CbCheck \<longrightarrow>
            callback_pc (callback_thread s) = CbWait \<or> callback_pc (callback_thread s) = CbSwap) \<and>
         (callback_log (callback_thread s) \<noteq> callback_log s \<longrightarrow>
            (\<exists>ev rest. callback_pc s = CbFor (ev # rest)) \<and>
            m_callback_mutex s \<noteq> Some CallbackThread)"
proof -
  have inv: "mutex_inv s"
    unfolding assms(2) by (rule mutex_inv_run [OF mutex_inv_fresh [OF assms(1)]])
  have swap: "callback_pc s = CbSwap \<longrightarrow>
            m_callback_mutex s = Some CallbackThread \<and>
            callback_pc (callback_thread s) = CbFor (m_callback_information s) \<and>
            m_callback_information (callback_thread s) = [] \<and>
            m_callback_mutex (callback_thread s) = None"
    using inv by (simp add: mutex_inv_def callback_holds_mutex_def callback_thread_def)
  have wait: "callback_pc s = CbWait \<longrightarrow>
            callback_thread s = s \<or> callback_pc (callback_thread s) = CbSwap"
    by (simp add: callback_thread_def)
  have check: "callback_pc s = CbCheck \<longrightarrow>
            callback_pc (callback_thread s) = CbWait \<or> callback_pc (callback_thread s) = CbSwap"
    by (simp add: callback_thread_def)
  have call: "callback_log (callback_thread s) \<noteq> callback_log s \<longrightarrow>
            (\<exists>ev rest. callback_pc s = CbFor (ev # rest)) \<and>
            m_callback_mutex s \<noteq> Some CallbackThread"
    using inv
    by (cases "callback_pc s")
       (auto simp: mutex_inv_def callback_holds_mutex_def callback_thread_def
         split: list.splits if_splits)
  from swap wait check call show ?thesis by blast
qed

theorem dispatcher_bulk_swap_witness:
  "callback_pc (run (watch_then_dispatch 5 3) (scenario Unix ''D'' (Some quiet_callback) create_two))
     = CbSwap \<and>
   m_callback_information
     (run (watch_then_dispatch 5 3) (scenario Unix ''D'' (Some quiet_callback) create_two))
     = [(''a.txt'', CREATED), (''b.txt'', CREATED)] \<and>
   m_callback_mutex
     (run (watch_then_dispatch 5 3) (scenario Unix ''D'' (Some quiet_callback) create_two))
     = Some CallbackThread \<and>
   callback_pc (callback_thread
     (run (watch_then_dispatch 5 3) (scenario Unix ''D'' (Some quiet_callback) create_two)))
     = CbFor [(''a.txt'', CREATED), (''b.txt'', CREATED)] \<and>
   m_callback_information (callback_thread
     (run (watch_then_dispatch 5 3) (scenario Unix ''D'' (Some quiet_callback) create_two)))
     = [] \<and>
   m_callback_mutex (callback_thread
     (run (watch_then_dispatch 5 3) (scenario Unix ''D'' (Some quiet_callback) create_two)))
     = None"
proof -
  have pc: "callback_pc
      (run (watch_then_dispatch 5 3) (scenario Unix ''D'' (Some quiet_callback) create_two))
      = CbSwap"
    by code_simp
  have queue: "m_callback_information
      (run (watch_then_dispatch 5 3) (scenario Unix ''D'' (Some quiet_callback) create_two))
      = [(''a.txt'', CREATED), (''b.txt'', CREATED)]"
    by code_simp
  from dispatcher_bulk_swap [OF scenario_new refl,
      of "watch_then_dispatch 5 3" Unix "Some quiet_callback" create_two] pc queue
  show ?thesis by simp
qed

text \<open>
  C7, as amended. When the dispatcher is in its loop over the local vector \<open>evs\<close> and
  no call of the callback on these events throws anything but a \<^verbatim>\<open>std::exception\<close>
  (each call returns or throws one), then \<open>length evs\<close> steps of the dispatcher call
  the callback on every event of \<open>evs\<close>, in order: an exception at event \<open>i\<close> is
  dropped and the events after it are still delivered.
\<close>

theorem std_exception_does_not_stop_dispatch:
  assumes "callback_pc s = CbFor evs" and "m_callback s = Some f"
    and "\<forall>i<length evs.
           f (length (callback_log s) + i) (fst (evs ! i)) (snd (evs ! i)) \<noteq> ThrowsOther"
  shows "callback_log (run (replicate (length evs) (Run CallbackThread)) s) = callback_log s @ evs \<and>
         callback_pc (run (replicate (length evs) (Run CallbackThread)) s) = CbFor []"
  using assms by (rule dispatch_loop_completes)

theorem std_exception_does_not_stop_dispatch_witness:
  "throw_runtime_error_first 0 ''a.txt'' CREATED = ThrowsStdException \<and>
   callback_pc (run (watch_then_dispatch 5 4)
       (scenario Unix ''D'' (Some throw_runtime_error_first) create_two))
     = CbFor [(''a.txt'', CREATED), (''b.txt'', CREATED)] \<and>
   callback_log (run (replicate 2 (Run CallbackThread)) (run (watch_then_dispatch 5 4)
       (scenario Unix ''D'' (Some throw_runtime_error_first) create_two)))
     = [(''a.txt'', CREATED), (''b.txt'', CREATED)]"
proof -
  let ?s = "run (watch_then_dispatch 5 4)
       (scenario Unix ''D'' (Some throw_runtime_error_first) create_two)"
  have pc: "callback_pc ?s = CbFor [(''a.txt'', CREATED), (''b.txt'', CREATED)]"
    by code_simp
  have log: "callback_log ?s = []"
    by code_simp
  have cb: "m_callback ?s = Some throw_runtime_error_first"
    using order_inv_run [OF order_inv_fresh
        [OF scenario_new [of create_two Unix "Some throw_runtime_error_first"]],
        of "watch_then_dispatch 5 4"]
    by (simp add: order_inv_def same_target_def scenarios)
  have ok: "\<forall>i<length [(''a.txt'', CREATED), (''b.txt'', CREATED)].
      throw_runtime_error_first (length (callback_log ?s) + i)
        (fst ([(''a.txt'', CREATED), (''b.txt'', CREATED)] ! i))
        (snd ([(''a.txt'', CREATED), (''b.txt'', CREATED)] ! i)) \<noteq> ThrowsOther"
    by (simp add: throw_runtime_error_first_def)
  have first: "throw_runtime_error_first 0 ''a.txt'' CREATED = ThrowsStdException"
    by (simp add: throw_runtime_error_first_def)
  from std_exception_does_not_stop_dispatch [OF pc cb ok] pc log first show ?thesis
    by (simp add: eval_nat_numeral)
qed

text \<open>
  C7 as stated fails: the handler of line 461 catches \<^verbatim>\<open>std::exception\<close> only. With a
  callback that throws an \<^verbatim>\<open>int\<close> on its first call and two events in the local vector,
  the first call ends the dispatch thread, and the callback is never called for the
  second event, whatever happens afterwards.
\<close>

theorem foreign_exception_stops_dispatch_counterexample:
  "throw_int_first 0 ''a.txt'' CREATED = ThrowsOther \<and>
   dispatch_pending (run (watch_then_dispatch 5 4)
       (scenario Unix ''D'' (Some throw_int_first) create_two))
     = [(''a.txt'', CREATED), (''b.txt'', CREATED)] \<and>
   (\<forall>acts. callback_log (run acts (run (watch_then_dispatch 5 5)
       (scenario Unix ''D'' (Some throw_int_first) create_two)))
     = [(''a.txt'', CREATED)])"
proof (intro conjI allI)
  show "throw_int_first 0 ''a.txt'' CREATED = ThrowsOther"
    by (simp add: throw_int_first_def)
  show "dispatch_pending (run (watch_then_dispatch 5 4)
       (scenario Unix ''D'' (Some throw_int_first) create_two))
     = [(''a.txt'', CREATED), (''b.txt'', CREATED)]"
    by code_simp
  fix acts
  let ?s = "run (watch_then_dispatch 5 5) (scenario Unix ''D'' (Some throw_int_first) create_two)"
  have "callback_pc ?s = CbExit" and "callback_log ?s = [(''a.txt'', CREATED)]"
    by code_simp+
  with callback_exit_final [of ?s acts]
  show "callback_log (run acts ?s) = [(''a.txt'', CREATED)]"
    by simp
qed

lemma m_destroy_run: "m_destroy s \<Longrightarrow> m_destroy (run acts s)"
proof (induction acts arbitrary: s)
  case Nil
  then show ?case by simp
next
  case (Cons a acts)
  have "m_destroy (sched_step a s)"
  proof (cases a)
    case (Run th)
    with Cons.prems show ?thesis
      by (cases th)
         (auto simp: callback_thread_def monitor_directory_def invoke_callback_def
           split: watch_pc.splits callback_pc.splits list.splits option.splits
             callback_result.splits)
  next
    case Destroy
    then show ?thesis by (simp add: destroy_begin_def)
  qed
  with Cons.IH show ?case by simp
qed

lemma stopped_dispatcher_never_calls:
  assumes "m_destroy s" and "callback_pc s = CbWhile \<or> callback_pc s = CbExit"
  shows "callback_log (run acts s) = callback_log s"
  using assms
proof (induction acts arbitrary: s)
  case Nil
  then show ?case by simp
next
  case (Cons a acts)
  have "m_destroy (sched_step a s) \<and>
        (callback_pc (sched_step a s) = CbWhile \<or> callback_pc (sched_step a s) = CbExit) \<and>
        callback_log (sched_step a s) = callback_log s"
  proof (cases a)
    case (Run th)
    with Cons.prems show ?thesis
      by (cases th)
         (auto simp: callback_thread_def monitor_directory_def
           split: watch_pc.splits list.splits)
  next
    case Destroy
    with Cons.prems show ?thesis by (simp add: destroy_begin_def)
  qed
  with Cons.IH [of "sched_step a s"] show ?case by simp
qed

lemma operator_assign_leaves_stop_flag:
  assumes "operator_assign env sched False other s = Some (Inr t)"
  shows "m_destroy t \<and> callback_pc t = CbWhile \<and> watch_pc t = MonStart"
proof -
  from assms obtain s1 where s1: "destroy sched s = Some s1"
    by (auto simp: operator_assign_def split: option.splits)
  then have "s1 = run sched (destroy_begin s)"
    by (auto simp: destroy_def Let_def split: if_splits)
  then have "m_destroy s1"
    using m_destroy_run [of "destroy_begin s" sched] by (simp add: destroy_begin_def)
  with assms s1 show ?thesis
    by (auto simp: operator_assign_def get_directory_def open_watch_def init_def is_file_def
        Let_def split: sum.splits platform.splits option.splits if_splits)
qed

lemma copy_assigned_never_dispatches:
  assumes "operator_assign env sched False other s = Some (Inr t)"
  shows "callback_log (run acts t) = callback_log t"
  using operator_assign_leaves_stop_flag [OF assms] stopped_dispatcher_never_calls [of t acts]
  by simp

text \<open>
  C3 fails on the code. A session constructed on \<^verbatim>\<open>D\<close> delivers the two creations that
  the operating system reports. The session that copy assignment leaves, for the same
  path, callback and reports, has its stop flag still set, since nothing resets
  \<^verbatim>\<open>_destroy\<close> after \<^verbatim>\<open>destroy\<close>: whatever its threads do, the callback is never called.
\<close>

theorem copy_assigned_session_is_stopped:
  "callback_log (run (watch_then_dispatch 5 6) (scenario Unix ''D'' (Some quiet_callback) create_two))
     = [(''a.txt'', CREATED), (''b.txt'', CREATED)] \<and>
   (case copy_assigned of
      Some (Inr t) \<Rightarrow> m_path t = ''D'' \<and> os_reports t = create_two \<and> m_destroy t
    | _ \<Rightarrow> False) \<and>
   (\<forall>acts. callback_log (run acts (constructed (the copy_assigned))) = [])"
proof (intro conjI allI)
  show "callback_log (run (watch_then_dispatch 5 6)
          (scenario Unix ''D'' (Some quiet_callback) create_two))
     = [(''a.txt'', CREATED), (''b.txt'', CREATED)]"
    by code_simp
  show "case copy_assigned of
      Some (Inr t) \<Rightarrow> m_path t = ''D'' \<and> os_reports t = create_two \<and> m_destroy t
    | _ \<Rightarrow> False"
    by code_simp
  fix acts
  have "case copy_assigned of Some (Inr t) \<Rightarrow> callback_log t = [] | _ \<Rightarrow> False"
    by code_simp
  then obtain t where t: "copy_assigned = Some (Inr t)" and log: "callback_log t = []"
    by (auto split: option.splits sum.splits)
  from t have "callback_log (run acts t) = callback_log t"
    unfolding copy_assigned_def by (rule copy_assigned_never_dispatches)
  moreover have "constructed (the copy_assigned) = t"
    unfolding t by (simp add: constructed_def)
  ultimately show "callback_log (run acts (constructed (the copy_assigned))) = []"
    using log by simp
qed






end
